theory Spec2Isabelle
  imports Complex_Main "HOL-Library.Option_ord"
begin

section \<open>Numbers and strings of the analytics module\<close>

text \<open>
  The salary columns of \<^verbatim>\<open>models/job.py\<close> are nullable \<^verbatim>\<open>Float\<close>s and
  \<^verbatim>\<open>analytics.py\<close> computes with Python floats. Every finite float is a rational
  number; the embedding takes salaries as rationals and computes exactly, so it describes
  the code wherever the float operations involved are exact or stay clear of a rounding
  tie. The concrete stores below use such values only.
\<close>

subsection \<open>Python's \<^verbatim>\<open>round\<close>\<close>

text \<open>\<^verbatim>\<open>round(x)\<close> rounds to the nearest integer, a tie going to the even neighbour.\<close>

definition py_round :: "rat \<Rightarrow> int" where
  "py_round x =
     (let f = \<lfloor>x\<rfloor>; d = x - of_int f in
      if d < 1 / 2 then f
      else if 1 / 2 < d then f + 1
      else if even f then f else f + 1)"

text \<open>\<^verbatim>\<open>round(x, 1)\<close>: the same rule on tenths.\<close>

definition py_round1 :: "rat \<Rightarrow> rat" where
  "py_round1 x = of_int (py_round (x * 10)) / 10"

subsection \<open>String helpers\<close>

text \<open>
  A \<^typ>\<open>string\<close> is read as a sequence of code points below 256.
  \<^verbatim>\<open>str.strip()\<close> removes the characters for which \<^verbatim>\<open>str.isspace()\<close> holds.
\<close>

definition is_space :: "char \<Rightarrow> bool" where
  "is_space c \<longleftrightarrow> c \<in> set [CHR 0x09, CHR 0x0A, CHR 0x0B, CHR 0x0C, CHR 0x0D,
     CHR 0x1C, CHR 0x1D, CHR 0x1E, CHR 0x1F, CHR 0x20, CHR 0x85, CHR 0xA0]"

definition strip :: "string \<Rightarrow> string" where
  "strip s = rev (dropWhile is_space (rev (dropWhile is_space s)))"

text \<open>\<^verbatim>\<open>s.split(',')\<close>: the pieces between the separators, empty pieces kept.\<close>

fun split_acc :: "char \<Rightarrow> string \<Rightarrow> string \<Rightarrow> string list" where
  "split_acc sep cur [] = [rev cur]"
| "split_acc sep cur (c # cs) =
     (if c = sep then rev cur # split_acc sep [] cs else split_acc sep (c # cur) cs)"

definition split :: "char \<Rightarrow> string \<Rightarrow> string list" where
  "split sep s = split_acc sep [] s"

text \<open>
  \<^verbatim>\<open>column.ilike(pattern)\<close> is rendered for SQLite as
  \<^verbatim>\<open>lower(column) LIKE lower(pattern)\<close>: \<^verbatim>\<open>%\<close> stands for any run of characters,
  \<^verbatim>\<open>_\<close> for one character, and letters are folded in the ASCII range.
\<close>

definition lower_ascii :: "char \<Rightarrow> char" where
  "lower_ascii c =
     (case map_of (zip ''ABCDEFGHIJKLMNOPQRSTUVWXYZ'' ''abcdefghijklmnopqrstuvwxyz'') c of
        Some l \<Rightarrow> l
      | None \<Rightarrow> c)"

fun like_match :: "string \<Rightarrow> string \<Rightarrow> bool" where
  "like_match [] [] = True"
| "like_match [] (c # s) = False"
| "like_match (p # ps) [] = (p = CHR ''%'' \<and> like_match ps [])"
| "like_match (p # ps) (c # s) =
     (if p = CHR ''%'' then like_match ps (c # s) \<or> like_match (p # ps) s
      else (p = CHR ''_'' \<or> p = c) \<and> like_match ps s)"

definition ilike :: "string \<Rightarrow> string \<Rightarrow> bool" where
  "ilike s pattern = like_match (map lower_ascii pattern) (map lower_ascii s)"

text \<open>The pattern \<^verbatim>\<open>f"%{x}%"\<close>.\<close>

definition contains_pattern :: "string \<Rightarrow> string" where
  "contains_pattern x = CHR ''%'' # x @ [CHR ''%'']"


definition sql_ilike :: "string option \<Rightarrow> string \<Rightarrow> bool option" where
  "sql_ilike col pattern = map_option (\<lambda>s. ilike s pattern) col"

definition sql_true :: "bool option \<Rightarrow> bool" where
  "sql_true b \<longleftrightarrow> b = Some True"

section \<open>The job table\<close>

text \<open>
  The columns of \<^verbatim>\<open>Job\<close> that \<^verbatim>\<open>analytics.py\<close> reads. A store state is the list
  of rows in the order in which a query without \<^verbatim>\<open>ORDER BY\<close> returns them.
\<close>

record job =
  job_id :: nat
  company :: string
  location :: string
  salary_min :: "rat option"
  salary_max :: "rat option"
  skills :: "string option"
  remote :: "string option"

text \<open>
  \<^verbatim>\<open>Job.salary_min.isnot(None), Job.salary_max.isnot(None)\<close>: the filter every
  salary query starts with.
\<close>

definition has_salary :: "job \<Rightarrow> bool" where
  "has_salary j \<longleftrightarrow> salary_min j \<noteq> None \<and> salary_max j \<noteq> None"

text \<open>\<^verbatim>\<open>(job.salary_min + job.salary_max) / 2\<close>, evaluated on rows that passed the filter.\<close>

definition midpoint :: "job \<Rightarrow> rat" where
  "midpoint j = (the (salary_min j) + the (salary_max j)) / 2"

text \<open>Python's truth value of an optional string: \<^verbatim>\<open>None\<close> and \<^verbatim>\<open>""\<close> are false.\<close>

definition truthy :: "string option \<Rightarrow> bool" where
  "truthy s \<longleftrightarrow> s \<noteq> None \<and> s \<noteq> Some []"

section \<open>\<^verbatim>\<open>get_salary_insights\<close>\<close>

record salary_insights =
  si_count :: nat
  si_avg_salary :: int
  si_min_salary :: rat
  si_max_salary :: rat
  si_median_salary :: rat

text \<open>The query built in lines 26 to 38: the base filter, then one filter per truthy argument.\<close>

definition salary_query :: "job list \<Rightarrow> string option \<Rightarrow> string option \<Rightarrow> job list" where
  "salary_query db loc skill =
     (let q0 = filter has_salary db;
          q1 = (if truthy loc
                then filter (\<lambda>j. ilike (location j) (contains_pattern (the loc))) q0 else q0);
          q2 = (if truthy skill
                then filter (\<lambda>j. sql_true (sql_ilike (skills j) (contains_pattern (the skill)))) q1
                else q1)
      in q2)"

definition get_salary_insights ::
  "job list \<Rightarrow> string option \<Rightarrow> string option \<Rightarrow> salary_insights" where
  "get_salary_insights db loc skill =
     (let jobs = salary_query db loc skill in
      case map midpoint jobs of
        [] \<Rightarrow> \<lparr>si_count = 0, si_avg_salary = 0, si_min_salary = 0, si_max_salary = 0,
                si_median_salary = 0\<rparr>
      | s # ss \<Rightarrow>
          (let salaries = s # ss in
           \<lparr>si_count = length jobs,
            si_avg_salary = py_round (sum_list salaries / of_nat (length salaries)),
            si_min_salary = fold min ss s,
            si_max_salary = fold max ss s,
            si_median_salary = sort salaries ! (length salaries div 2)\<rparr>))"

section \<open>Grouped queries\<close>

text \<open>
  \<^verbatim>\<open>GROUP BY\<close> puts the rows with the same key value into one group, NULL keys
  together. SQL does not fix the order in which the groups are returned; the embedding
  lists them by the last row of each group. The aggregate functions skip nothing here,
  since the grouped expression is the midpoint of rows that have both bounds, and return
  NULL on an empty group.
\<close>

definition group_by :: "(job \<Rightarrow> 'k) \<Rightarrow> job list \<Rightarrow> ('k \<times> job list) list" where
  "group_by key rows = map (\<lambda>k. (k, filter (\<lambda>j. key j = k) rows)) (remdups (map key rows))"

definition sql_avg :: "rat list \<Rightarrow> rat option" where
  "sql_avg xs = (case xs of [] \<Rightarrow> None | _ # _ \<Rightarrow> Some (sum_list xs / of_nat (length xs)))"

definition sql_min :: "rat list \<Rightarrow> rat option" where
  "sql_min xs = (case xs of [] \<Rightarrow> None | x # ys \<Rightarrow> Some (fold min ys x))"

definition sql_max :: "rat list \<Rightarrow> rat option" where
  "sql_max xs = (case xs of [] \<Rightarrow> None | x # ys \<Rightarrow> Some (fold max ys x))"

text \<open>\<^verbatim>\<open>LIMIT n\<close>; SQLite reads a negative \<open>n\<close> as no limit.\<close>

definition sql_limit :: "int \<Rightarrow> 'a list \<Rightarrow> 'a list" where
  "sql_limit n xs = (if n < 0 then xs else take (nat n) xs)"

text \<open>
  \<^verbatim>\<open>sorted(xs, key=k, reverse=True)\<close> and \<^verbatim>\<open>ORDER BY k DESC\<close>: descending in the key,
  rows with equal keys in their original order (an order SQL leaves open). A NULL key
  is below every value, as in SQLite.
\<close>

fun insort_desc :: "('a \<Rightarrow> 'k::linorder) \<Rightarrow> 'a \<Rightarrow> 'a list \<Rightarrow> 'a list" where
  "insort_desc key x [] = [x]"
| "insort_desc key x (y # ys) =
     (if key y \<le> key x then x # y # ys else y # insort_desc key x ys)"

definition sorted_desc :: "('a \<Rightarrow> 'k::linorder) \<Rightarrow> 'a list \<Rightarrow> 'a list" where
  "sorted_desc key xs = foldr (insort_desc key) xs []"

text \<open>Python's truth value of an optional number: \<^verbatim>\<open>None\<close> and \<^verbatim>\<open>0\<close> are false.\<close>

definition truthy_num :: "rat option \<Rightarrow> bool" where
  "truthy_num x \<longleftrightarrow> x \<noteq> None \<and> x \<noteq> Some 0"

text \<open>\<^verbatim>\<open>round(avg_sal) if avg_sal else 0\<close>\<close>

definition round_or_zero :: "rat option \<Rightarrow> int" where
  "round_or_zero a = (if truthy_num a then py_round (the a) else 0)"

section \<open>Number formatting\<close>

definition digit_char :: "nat \<Rightarrow> char" where
  "digit_char d = ''0123456789'' ! d"

fun dec :: "nat \<Rightarrow> string" where
  "dec n = (if n < 10 then [digit_char n] else dec (n div 10) @ [digit_char (n mod 10)])"

text \<open>The format \<^verbatim>\<open>:,\<close> of a non-negative integer: decimal digits in groups of three.\<close>

fun group_thousands :: "nat \<Rightarrow> string" where
  "group_thousands n =
     (if n < 1000 then dec n
      else group_thousands (n div 1000) @
           [CHR '','', digit_char (n mod 1000 div 100), digit_char (n mod 100 div 10),
            digit_char (n mod 10)])"

text \<open>\<^verbatim>\<open>f"{i:,}"\<close> for an integer.\<close>

definition fmt_int :: "int \<Rightarrow> string" where
  "fmt_int i = (if i < 0 then CHR ''-'' # group_thousands (nat (- i)) else group_thousands (nat i))"

text \<open>
  \<^verbatim>\<open>f"{x:,.0f}"\<close>: the number rounded to no decimals, ties to even; a negative number
  keeps its sign even when it rounds to zero.
\<close>

definition fmt_float0 :: "rat \<Rightarrow> string" where
  "fmt_float0 x =
     (if x < 0 then CHR ''-'' # group_thousands (nat (- py_round x))
      else group_thousands (nat (py_round x)))"

section \<open>\<^verbatim>\<open>get_salary_by_location\<close>\<close>

record location_salary =
  ls_location :: string
  ls_job_count :: nat
  ls_avg_salary :: int

definition get_salary_by_location :: "job list \<Rightarrow> location_salary list" where
  "get_salary_by_location db =
     (let groups = group_by location (filter has_salary db);
          rows = map (\<lambda>(loc, g). (loc, length g, sql_avg (map midpoint g))) groups;
          ordered = sorted_desc (\<lambda>(loc, cnt, avg_sal). avg_sal) rows
      in map (\<lambda>(loc, cnt, avg_sal).
                \<lparr>ls_location = loc, ls_job_count = cnt, ls_avg_salary = round_or_zero avg_sal\<rparr>)
           ordered)"

section \<open>\<^verbatim>\<open>get_top_skills\<close>\<close>

datatype error = ZeroDivisionError

text \<open>
  \<^verbatim>\<open>Counter(xs)\<close> and \<^verbatim>\<open>skill_salaries\<close> are dictionaries, which keep their keys
  in the order of first insertion: association lists with one entry per key.
\<close>

fun counter_add :: "'a \<Rightarrow> ('a \<times> nat) list \<Rightarrow> ('a \<times> nat) list" where
  "counter_add x [] = [(x, 1)]"
| "counter_add x ((k, c) # kcs) =
     (if k = x then (k, c + 1) # kcs else (k, c) # counter_add x kcs)"

definition Counter :: "'a list \<Rightarrow> ('a \<times> nat) list" where
  "Counter xs = fold counter_add xs []"

text \<open>
  \<^verbatim>\<open>most_common(n)\<close> is \<^verbatim>\<open>heapq.nlargest(n, items, key=count)\<close>: the first \<open>n\<close>
  items of the stable descending sort, none for \<open>n \<le> 0\<close>.
\<close>

definition most_common :: "int \<Rightarrow> ('a \<times> nat) list \<Rightarrow> ('a \<times> nat) list" where
  "most_common n items = take (nat n) (sorted_desc snd items)"

text \<open>
  \<^verbatim>\<open>if skill not in skill_salaries: skill_salaries[skill] = []\<close> followed by
  \<^verbatim>\<open>skill_salaries[skill].append(avg_salary)\<close>.
\<close>

fun dict_append :: "'k \<Rightarrow> 'v \<Rightarrow> ('k \<times> 'v list) list \<Rightarrow> ('k \<times> 'v list) list" where
  "dict_append k v [] = [(k, [v])]"
| "dict_append k v ((k', vs) # d) =
     (if k' = k then (k', vs @ [v]) # d else (k', vs) # dict_append k v d)"

type_synonym skill_state = "string list \<times> (string \<times> rat list) list"

text \<open>The body of the inner loop (lines 98 to 103) on the pair \<^verbatim>\<open>(all_skills, skill_salaries)\<close>.\<close>

definition scan_skill :: "rat \<Rightarrow> string \<Rightarrow> skill_state \<Rightarrow> skill_state" where
  "scan_skill avg_salary skill st =
     (if skill \<noteq> [] then (fst st @ [skill], dict_append skill avg_salary (snd st)) else st)"

text \<open>\<^verbatim>\<open>[skill.strip() for skill in job.skills.split(',')]\<close>\<close>

definition job_skills :: "job \<Rightarrow> string list" where
  "job_skills j = map strip (split CHR '','' (the (skills j)))"

text \<open>The body of the outer loop (lines 93 to 103).\<close>

definition scan_job :: "job \<Rightarrow> skill_state \<Rightarrow> skill_state" where
  "scan_job j st =
     (if truthy (skills j) then fold (scan_skill (midpoint j)) (job_skills j) st else st)"

definition scan_jobs :: "job list \<Rightarrow> skill_state" where
  "scan_jobs jobs = fold scan_job jobs ([], [])"

record top_skill =
  ts_skill :: string
  ts_job_count :: nat
  ts_avg_salary :: int
  ts_percentage :: rat

text \<open>The query of lines 87 to 91.\<close>

definition skills_query :: "job list \<Rightarrow> job list" where
  "skills_query db = filter (\<lambda>j. skills j \<noteq> None \<and> has_salary j) db"

text \<open>
  The loop of lines 110 to 118, with \<open>n\<close> for \<^verbatim>\<open>len(jobs)\<close>. The division by
  \<^verbatim>\<open>len(jobs)\<close> is not guarded in the source, so it is a branch here.
\<close>

fun skill_rows ::
  "nat \<Rightarrow> (string \<times> rat list) list \<Rightarrow> (string \<times> nat) list \<Rightarrow> error + top_skill list" where
  "skill_rows n sal [] = Inr []"
| "skill_rows n sal ((skill, cnt) # rest) =
     (case map_of sal skill of
        Some (s # ss) \<Rightarrow>
          if n = 0 then Inl ZeroDivisionError
          else (case skill_rows n sal rest of
                  Inl e \<Rightarrow> Inl e
                | Inr rows \<Rightarrow>
                    Inr (\<lparr>ts_skill = skill, ts_job_count = cnt,
                          ts_avg_salary = py_round (sum_list (s # ss) / of_nat (length (s # ss))),
                          ts_percentage = py_round1 (of_nat cnt / of_nat n * 100)\<rparr> # rows))
      | _ \<Rightarrow> skill_rows n sal rest)"

definition get_top_skills :: "job list \<Rightarrow> int \<Rightarrow> error + top_skill list" where
  "get_top_skills db limit =
     (let jobs = skills_query db;
          st = scan_jobs jobs;
          skill_counts = Counter (fst st)
      in skill_rows (length jobs) (snd st) (most_common limit skill_counts))"

section \<open>\<^verbatim>\<open>get_company_insights\<close>\<close>

record company_insight =
  ci_company :: string
  ci_job_count :: nat
  ci_avg_salary :: int
  ci_salary_range :: string

definition get_company_insights :: "job list \<Rightarrow> int \<Rightarrow> company_insight list" where
  "get_company_insights db limit =
     (let groups = group_by company (filter has_salary db);
          rows = map (\<lambda>(c, g). (c, length g, sql_avg (map midpoint g), sql_min (map midpoint g),
                                 sql_max (map midpoint g))) groups;
          ordered = sql_limit limit (sorted_desc (\<lambda>(c, cnt, avg_sal, min_sal, max_sal). cnt) rows)
      in map (\<lambda>(c, cnt, avg_sal, min_sal, max_sal).
                \<lparr>ci_company = c, ci_job_count = cnt, ci_avg_salary = round_or_zero avg_sal,
                 ci_salary_range =
                   (if truthy_num min_sal \<and> truthy_num max_sal
                    then ''$'' @ fmt_int (py_round (the min_sal)) @ '' - $'' @
                         fmt_int (py_round (the max_sal))
                    else ''N/A'')\<rparr>)
           ordered)"

section \<open>\<^verbatim>\<open>get_remote_work_trends\<close>\<close>

record remote_trend =
  rt_type :: "string option"
  rt_job_count :: nat
  rt_percentage :: rat
  rt_avg_salary :: int

definition get_remote_work_trends :: "job list \<Rightarrow> remote_trend list" where
  "get_remote_work_trends db =
     (let groups = group_by remote (filter has_salary db);
          rows = map (\<lambda>(t, g). (t, length g, sql_avg (map midpoint g))) groups;
          total_jobs = length db;
          results = map (\<lambda>(remote_type, cnt, avg_sal).
                           \<lparr>rt_type = remote_type, rt_job_count = cnt,
                            rt_percentage =
                              (if total_jobs > 0
                               then py_round1 (of_nat cnt / of_nat total_jobs * 100) else 0),
                            rt_avg_salary = round_or_zero avg_sal\<rparr>) rows
      in sorted_desc rt_job_count results)"

section \<open>\<^verbatim>\<open>get_skill_salary_impact\<close>\<close>




section \<open>\<^verbatim>\<open>generate_market_summary\<close>\<close>

record market_summary =
  ms_total_jobs :: nat
  ms_avg_salary :: int
  ms_salary_range :: string
  ms_top_skills :: "string list"
  ms_highest_paying_location :: string
  ms_remote_percentage :: rat

definition get_total_jobs_count :: "job list \<Rightarrow> nat" where
  "get_total_jobs_count db = length db"

definition generate_market_summary :: "job list \<Rightarrow> error + market_summary" where
  "generate_market_summary db =
     (let total_jobs = get_total_jobs_count db;
          overall_salary = get_salary_insights db None None
      in case get_top_skills db 5 of
           Inl e \<Rightarrow> Inl e
         | Inr top_skills \<Rightarrow>
             (let top_locations = take 5 (get_salary_by_location db);
                  remote_trends = get_remote_work_trends db
              in Inr \<lparr>ms_total_jobs = total_jobs,
                      ms_avg_salary = si_avg_salary overall_salary,
                      ms_salary_range =
                        ''$'' @ fmt_float0 (si_min_salary overall_salary) @ '' - $'' @
                        fmt_float0 (si_max_salary overall_salary),
                      ms_top_skills = map ts_skill top_skills,
                      ms_highest_paying_location =
                        (case top_locations of [] \<Rightarrow> ''N/A'' | l # _ \<Rightarrow> ls_location l),
                      ms_remote_percentage =
                        (case find (\<lambda>item. rt_type item = Some ''Remote'') remote_trends of
                           None \<Rightarrow> 0
                         | Some item \<Rightarrow> rt_percentage item)\<rparr>))"

section \<open>Notions of the specification\<close>

text \<open>
  The specification speaks of the occurrences of a skill: one per record and per token of
  the record's skills field, after splitting on commas, trimming and dropping the empty
  tokens. Each occurrence carries the midpoint salary of its record.
\<close>

definition skill_tokens :: "job \<Rightarrow> string list" where
  "skill_tokens j =
     (case skills j of
        None \<Rightarrow> []
      | Some s \<Rightarrow> filter (\<lambda>t. t \<noteq> []) (map strip (split CHR '','' s)))"

definition occurrences :: "job list \<Rightarrow> (string \<times> rat) list" where
  "occurrences jobs = concat (map (\<lambda>j. map (\<lambda>t. (t, midpoint j)) (skill_tokens j)) jobs)"

text \<open>The salary sample of a skill: the midpoints of its occurrences.\<close>

definition salary_sample :: "job list \<Rightarrow> string \<Rightarrow> rat list" where
  "salary_sample jobs k = map snd (filter (\<lambda>oc. fst oc = k) (occurrences jobs))"

text \<open>Reading a dictionary of lists and a counter at a key that may be absent.\<close>

definition entries :: "('k \<times> 'v list) list \<Rightarrow> 'k \<Rightarrow> 'v list" where
  "entries d k = (case map_of d k of None \<Rightarrow> [] | Some vs \<Rightarrow> vs)"

definition tally :: "('a \<times> nat) list \<Rightarrow> 'a \<Rightarrow> nat" where
  "tally kcs k = (case map_of kcs k of None \<Rightarrow> 0 | Some c \<Rightarrow> c)"

text \<open>The row that the loop of \<^verbatim>\<open>get_top_skills\<close> appends for one counted skill.\<close>

definition skill_row :: "nat \<Rightarrow> (string \<times> rat list) list \<Rightarrow> string \<times> nat \<Rightarrow> top_skill" where
  "skill_row n sal item =
     \<lparr>ts_skill = fst item, ts_job_count = snd item,
      ts_avg_salary =
        py_round (sum_list (entries sal (fst item)) / of_nat (length (entries sal (fst item)))),
      ts_percentage = py_round1 (of_nat (snd item) / of_nat n * 100)\<rparr>"

section \<open>Concrete stores\<close>


text \<open>The three records of the scenario in the specification's testable properties.\<close>

definition skills_db :: "job list" where
  "skills_db =
     [\<lparr>job_id = 1, company = ''Acme'', location = ''Boston, MA'', salary_min = Some 80000,
       salary_max = Some 90000, skills = Some ''Python, SQL'', remote = Some ''Remote''\<rparr>,
      \<lparr>job_id = 2, company = ''Acme'', location = ''Boston, MA'', salary_min = Some 100000,
       salary_max = Some 110000, skills = Some ''Python'', remote = Some ''Hybrid''\<rparr>,
      \<lparr>job_id = 3, company = ''Initech'', location = ''Austin, TX'', salary_min = Some 60000,
       salary_max = Some 70000, skills = Some ''SQL, Java'', remote = None\<rparr>]"


text \<open>One record that names the same skill twice.\<close>

definition repeated_skill_db :: "job list" where
  "repeated_skill_db =
     [\<lparr>job_id = 1, company = ''Acme'', location = ''Boston, MA'', salary_min = Some 80000,
       salary_max = Some 90000, skills = Some ''Python, Python'', remote = Some ''Remote''\<rparr>]"


text \<open>One company with an unpaid position (both bounds 0) and a paid one.\<close>

definition zero_salary_db :: "job list" where
  "zero_salary_db =
     [\<lparr>job_id = 1, company = ''Acme'', location = ''Boston, MA'', salary_min = Some 0,
       salary_max = Some 0, skills = Some ''Python'', remote = Some ''On-site''\<rparr>,
      \<lparr>job_id = 2, company = ''Acme'', location = ''Boston, MA'', salary_min = Some 50000,
       salary_max = Some 60000, skills = Some ''Python, SQL'', remote = Some ''Remote''\<rparr>]"


section \<open>Evaluation support\<close>

lemma floor_rat_numeral_div [simp]:
  "\<lfloor>(numeral a :: rat) / numeral b\<rfloor> = numeral a div numeral b"
  using floor_divide_of_int_eq [of "numeral a" "numeral b", where ?'a = rat] by simp

lemma floor_rat_neg_numeral_div [simp]:
  "\<lfloor>- ((numeral a :: rat) / numeral b)\<rfloor> = - numeral a div numeral b"
  using floor_divide_of_int_eq [of "- numeral a" "numeral b", where ?'a = rat] by simp

section \<open>Properties of rounding\<close>

lemma py_round_cases:
  "py_round x = \<lfloor>x\<rfloor> \<or> py_round x = \<lfloor>x\<rfloor> + 1"
  by (simp add: py_round_def Let_def)


lemma py_round_of_int [simp]: "py_round (of_int k) = k"
  by (simp add: py_round_def)

lemma py_round_mono:
  assumes "x \<le> y"
  shows "py_round x \<le> py_round y"
proof (cases "\<lfloor>x\<rfloor> = \<lfloor>y\<rfloor>")
  case True
  with assms show ?thesis
    by (auto simp: py_round_def Let_def)
next
  case False
  with assms have "\<lfloor>x\<rfloor> < \<lfloor>y\<rfloor>"
    using floor_mono [of x y] by linarith
  then have "\<lfloor>x\<rfloor> + 1 \<le> \<lfloor>y\<rfloor>" by simp
  moreover have "py_round x \<le> \<lfloor>x\<rfloor> + 1"
    using py_round_cases [of x] by linarith
  moreover have "\<lfloor>y\<rfloor> \<le> py_round y"
    using py_round_cases [of y] by linarith
  ultimately show ?thesis by linarith
qed

lemma py_round1_mono: "x \<le> y \<Longrightarrow> py_round1 x \<le> py_round1 y"
  by (simp add: py_round1_def py_round_mono divide_right_mono)

lemma py_round_nonneg: "0 \<le> x \<Longrightarrow> 0 \<le> py_round x"
  using py_round_mono [of 0 x] by (simp add: py_round_def)

section \<open>Helper lemmas\<close>

lemma split_acc_ne: "split_acc sep cur s \<noteq> []"
  by (induction s arbitrary: cur) auto

lemma split_nil: "split sep [] = [[]]"
  by (simp add: split_def)

lemma strip_nil [simp]: "strip [] = []"
  by (simp add: strip_def)

subsection \<open>The salary dictionary\<close>

lemma map_of_dict_append:
  "map_of (dict_append k v d) k' =
     (if k' = k then Some (entries d k @ [v]) else map_of d k')"
  by (induction d) (auto simp: entries_def)

lemma entries_dict_append:
  "entries (dict_append k v d) k' = (if k' = k then entries d k @ [v] else entries d k')"
  by (simp add: entries_def map_of_dict_append)

lemma fold_scan_skill:
  "fold (scan_skill m) toks st =
     (fst st @ filter (\<lambda>t. t \<noteq> []) toks,
      fold (\<lambda>t. dict_append t m) (filter (\<lambda>t. t \<noteq> []) toks) (snd st))"
  by (induction toks arbitrary: st) (auto simp: scan_skill_def)

lemma scan_job_tokens:
  "scan_job j st =
     (fst st @ skill_tokens j, fold (\<lambda>t. dict_append t (midpoint j)) (skill_tokens j) (snd st))"
proof (cases "skills j")
  case None
  then show ?thesis by (simp add: scan_job_def truthy_def skill_tokens_def)
next
  case (Some s)
  show ?thesis
  proof (cases "s = []")
    case True
    with Some show ?thesis
      by (simp add: scan_job_def truthy_def skill_tokens_def split_nil)
  next
    case False
    with Some show ?thesis
      by (simp add: scan_job_def truthy_def skill_tokens_def job_skills_def fold_scan_skill)
  qed
qed

lemma fold_dict_append_entries:
  "entries (fold (\<lambda>t. dict_append t m) toks d) k = entries d k @ map (\<lambda>t. m) (filter (\<lambda>t. t = k) toks)"
  by (induction toks arbitrary: d) (auto simp: entries_dict_append)

lemma fold_scan_job_fst:
  "fst (fold scan_job jobs st) = fst st @ map fst (occurrences jobs)"
  by (induction jobs arbitrary: st) (auto simp: scan_job_tokens occurrences_def comp_def)

lemma fold_scan_job_entries:
  "entries (snd (fold scan_job jobs st)) k =
     entries (snd st) k @ map snd (filter (\<lambda>oc. fst oc = k) (occurrences jobs))"
proof (induction jobs arbitrary: st)
  case Nil
  then show ?case by (simp add: occurrences_def)
next
  case (Cons j jobs)
  have "map snd (filter (\<lambda>oc. fst oc = k) (map (\<lambda>t. (t, midpoint j)) (skill_tokens j))) =
        map (\<lambda>t. midpoint j) (filter (\<lambda>t. t = k) (skill_tokens j))"
    by (induction "skill_tokens j") (auto simp: filter_map comp_def)
  then show ?case
    using Cons [of "scan_job j st"]
    by (simp add: scan_job_tokens fold_dict_append_entries occurrences_def)
qed

lemma scan_jobs_fst: "fst (scan_jobs jobs) = map fst (occurrences jobs)"
  by (simp add: scan_jobs_def fold_scan_job_fst)

lemma scan_jobs_entries:
  "entries (snd (scan_jobs jobs)) k = map snd (filter (\<lambda>oc. fst oc = k) (occurrences jobs))"
  using fold_scan_job_entries [of jobs "([], [])" k]
  by (simp add: scan_jobs_def entries_def)

lemma length_sample:
  "length (map snd (filter (\<lambda>oc. fst oc = k) occ)) = count_list (map fst occ) k"
  by (induction occ) auto

subsection \<open>The counter\<close>

lemma map_of_counter_add:
  "map_of (counter_add x kcs) k = (if k = x then Some (tally kcs x + 1) else map_of kcs k)"
  by (induction kcs) (auto simp: tally_def)

lemma fst_counter_add:
  "fst ` set (counter_add x kcs) = insert x (fst ` set kcs)"
proof (induction kcs)
  case Nil
  then show ?case by simp
next
  case (Cons kc kcs)
  obtain k c where kc: "kc = (k, c)" by (cases kc)
  show ?case
  proof (cases "k = x")
    case True
    with kc show ?thesis by auto
  next
    case False
    with kc Cons show ?thesis by (simp add: insert_commute)
  qed
qed

lemma distinct_counter_add:
  "distinct (map fst kcs) \<Longrightarrow> distinct (map fst (counter_add x kcs))"
  by (induction kcs) (auto simp: fst_counter_add)

lemma fold_counter_add_distinct:
  "distinct (map fst kcs) \<Longrightarrow> distinct (map fst (fold counter_add xs kcs))"
  by (induction xs arbitrary: kcs) (auto simp: distinct_counter_add)

lemma tally_counter_add:
  "tally (counter_add x kcs) k = (if k = x then tally kcs x + 1 else tally kcs k)"
  by (simp add: tally_def map_of_counter_add)

lemma fold_counter_add_tally:
  "tally (fold counter_add xs kcs) k = tally kcs k + count_list xs k"
  by (induction xs arbitrary: kcs) (auto simp: tally_counter_add)

lemma fold_counter_add_keys:
  "fst ` set (fold counter_add xs kcs) = fst ` set kcs \<union> set xs"
  by (induction xs arbitrary: kcs) (auto simp: fst_counter_add)

lemma Counter_entry:
  assumes "(k, c) \<in> set (Counter xs)"
  shows "c = count_list xs k" and "k \<in> set xs"
proof -
  have "distinct (map fst (Counter xs))"
    by (simp add: Counter_def fold_counter_add_distinct)
  with assms have "map_of (Counter xs) k = Some c" by simp
  then have "tally (Counter xs) k = c" by (simp add: tally_def)
  moreover have "tally (fold counter_add xs []) k = tally [] k + count_list xs k"
    by (rule fold_counter_add_tally)
  moreover have "tally [] k = 0" by (simp add: tally_def)
  ultimately show "c = count_list xs k"
    by (simp add: Counter_def)
  from assms have "k \<in> fst ` set (Counter xs)" by force
  then show "k \<in> set xs"
    by (simp add: Counter_def fold_counter_add_keys)
qed

subsection \<open>Descending sort\<close>

lemma set_insort_desc: "set (insort_desc key x ys) = insert x (set ys)"
  by (induction ys) auto

lemma set_sorted_desc: "set (sorted_desc key xs) = set xs"
  by (induction xs) (auto simp: sorted_desc_def set_insort_desc)

lemma length_insort_desc: "length (insort_desc key x ys) = Suc (length ys)"
  by (induction ys) auto

lemma length_sorted_desc: "length (sorted_desc key xs) = length xs"
  by (induction xs) (auto simp: sorted_desc_def length_insort_desc)

lemma sorted_insort_desc:
  "sorted_wrt (\<lambda>a b. key b \<le> key a) ys \<Longrightarrow> sorted_wrt (\<lambda>a b. key b \<le> key a) (insort_desc key x ys)"
  by (induction ys) (auto simp: set_insort_desc)

lemma sorted_sorted_desc: "sorted_wrt (\<lambda>a b. key b \<le> key a) (sorted_desc key xs)"
  by (induction xs) (auto simp: sorted_desc_def sorted_insort_desc)

lemma set_most_common: "set (most_common n items) \<subseteq> set items"
  using set_take_subset [of "nat n" "sorted_desc snd items"]
  by (simp add: most_common_def set_sorted_desc)

lemma length_most_common: "length (most_common n items) \<le> nat n"
  by (simp add: most_common_def)

subsection \<open>The rows of the skill ranking\<close>

lemma skill_rows_Inr:
  assumes "0 < n" and "\<forall>item \<in> set items. entries sal (fst item) \<noteq> []"
  shows "skill_rows n sal items = Inr (map (skill_row n sal) items)"
  using assms(2)
proof (induction items)
  case Nil
  then show ?case by simp
next
  case (Cons item items)
  obtain k c where item: "item = (k, c)" by (cases item)
  from Cons.prems item have "entries sal k \<noteq> []" by simp
  then obtain s ss where "entries sal k = s # ss" by (cases "entries sal k") auto
  moreover from this have "map_of sal k = Some (s # ss)"
    by (cases "map_of sal k") (auto simp: entries_def)
  ultimately show ?case
    using Cons assms(1) item by (simp add: skill_row_def)
qed

lemma occurrences_nonempty_jobs: "occurrences jobs \<noteq> [] \<Longrightarrow> jobs \<noteq> []"
  by (auto simp: occurrences_def)

lemma get_top_skills_rows:
  "get_top_skills db limit =
     Inr (map (skill_row (length (skills_query db)) (snd (scan_jobs (skills_query db))))
            (most_common limit (Counter (map fst (occurrences (skills_query db))))))"
proof -
  let ?jobs = "skills_query db"
  let ?occ = "occurrences ?jobs"
  let ?items = "most_common limit (Counter (map fst ?occ))"
  have keys: "\<forall>item \<in> set ?items. fst item \<in> set (map fst ?occ)"
  proof
    fix item assume "item \<in> set ?items"
    then have "(fst item, snd item) \<in> set (Counter (map fst ?occ))"
      using set_most_common [of limit "Counter (map fst ?occ)"] by auto
    then show "fst item \<in> set (map fst ?occ)" by (rule Counter_entry(2))
  qed
  show ?thesis
  proof (cases "?items = []")
    case True
    then show ?thesis by (simp add: get_top_skills_def Let_def scan_jobs_fst)
  next
    case False
    then obtain item where "item \<in> set ?items" by (cases ?items) auto
    with keys have "?occ \<noteq> []" by auto
    then have "0 < length ?jobs" using occurrences_nonempty_jobs by blast
    moreover have "\<forall>item \<in> set ?items. entries (snd (scan_jobs ?jobs)) (fst item) \<noteq> []"
    proof
      fix item assume "item \<in> set ?items"
      with keys have "fst item \<in> set (map fst ?occ)" by blast
      then have "0 < count_list (map fst ?occ) (fst item)"
        by (meson count_list_0_iff not_gr_zero)
      then show "entries (snd (scan_jobs ?jobs)) (fst item) \<noteq> []"
        using length_sample [of "fst item" ?occ] by (auto simp: scan_jobs_entries simp del: length_map)
    qed
    ultimately show ?thesis
      by (simp add: get_top_skills_def Let_def scan_jobs_fst skill_rows_Inr)
  qed
qed

subsection \<open>The entries of the skill ranking\<close>

lemma scan_jobs_sample: "entries (snd (scan_jobs jobs)) k = salary_sample jobs k"
  by (simp add: scan_jobs_entries salary_sample_def)

lemma length_salary_sample:
  "length (salary_sample jobs k) = count_list (map fst (occurrences jobs)) k"
  unfolding salary_sample_def by (rule length_sample)

lemma skill_tokens_no_skills: "skills j = None \<Longrightarrow> skill_tokens j = []"
  by (simp add: skill_tokens_def)

lemma occurrences_skills_query:
  "occurrences (skills_query db) = occurrences (filter has_salary db)"
  by (induction db) (auto simp: occurrences_def skills_query_def skill_tokens_no_skills)

lemma salary_sample_skills_query:
  "salary_sample (skills_query db) k = salary_sample (filter has_salary db) k"
  by (simp add: salary_sample_def occurrences_skills_query)

lemma skills_query_conv:
  "skills_query db = filter (\<lambda>j. has_salary j \<and> skills j \<noteq> None) db"
  by (simp add: skills_query_def conj_commute)

lemma top_skills_entries:
  "\<exists>rows. get_top_skills db limit = Inr rows \<and> length rows \<le> nat limit \<and>
     (\<forall>e \<in> set rows.
        ts_job_count e = count_list (map fst (occurrences (filter has_salary db))) (ts_skill e) \<and>
        0 < ts_job_count e \<and>
        length (salary_sample (filter has_salary db) (ts_skill e)) = ts_job_count e \<and>
        ts_avg_salary e =
          py_round (sum_list (salary_sample (filter has_salary db) (ts_skill e)) /
                    of_nat (ts_job_count e)) \<and>
        ts_percentage e =
          py_round1 (of_nat (ts_job_count e) /
                     of_nat (length (filter (\<lambda>j. has_salary j \<and> skills j \<noteq> None) db)) * 100))"
proof -
  let ?jobs = "skills_query db"
  let ?xs = "map fst (occurrences (filter has_salary db))"
  let ?items = "most_common limit (Counter ?xs)"
  let ?row = "skill_row (length ?jobs) (snd (scan_jobs ?jobs))"
  have rows: "get_top_skills db limit = Inr (map ?row ?items)"
    using get_top_skills_rows [of db limit] by (simp add: occurrences_skills_query)
  have len: "length (map ?row ?items) \<le> nat limit"
    by (simp add: length_most_common)
  have ent: "ts_job_count e = count_list ?xs (ts_skill e) \<and>
        0 < ts_job_count e \<and>
        length (salary_sample (filter has_salary db) (ts_skill e)) = ts_job_count e \<and>
        ts_avg_salary e =
          py_round (sum_list (salary_sample (filter has_salary db) (ts_skill e)) /
                    of_nat (ts_job_count e)) \<and>
        ts_percentage e =
          py_round1 (of_nat (ts_job_count e) /
                     of_nat (length (filter (\<lambda>j. has_salary j \<and> skills j \<noteq> None) db)) * 100)"
    if "e \<in> set (map ?row ?items)" for e
  proof -
    from that obtain item where item: "item \<in> set ?items" and e: "e = ?row item" by auto
    obtain k c where kc: "item = (k, c)" by (cases item)
    from item kc have "(k, c) \<in> set (Counter ?xs)"
      using set_most_common [of limit "Counter ?xs"] by auto
    then have c: "c = count_list ?xs k" and k: "k \<in> set ?xs"
      by (rule Counter_entry)+
    from k have pos: "0 < count_list ?xs k"
      by (meson count_list_0_iff not_gr_zero)
    have sample: "entries (snd (scan_jobs ?jobs)) k = salary_sample (filter has_salary db) k"
      by (simp add: scan_jobs_sample salary_sample_skills_query)
    show ?thesis
      using c pos sample length_salary_sample [of "filter has_salary db" k]
      by (simp add: e kc skill_row_def skills_query_conv)
  qed
  show ?thesis
    using rows len ent by blast
qed

lemma count_list_distinct: "distinct xs \<Longrightarrow> count_list xs k \<le> 1"
  by (induction xs) (auto simp: count_list_0_iff)

lemma count_occurrences_le:
  "\<forall>j \<in> set jobs. distinct (skill_tokens j) \<Longrightarrow>
   count_list (map fst (occurrences jobs)) k \<le> length (filter (\<lambda>j. skills j \<noteq> None) jobs)"
proof (induction jobs)
  case Nil
  then show ?case by (simp add: occurrences_def)
next
  case (Cons j jobs)
  have split: "map fst (occurrences (j # jobs)) = skill_tokens j @ map fst (occurrences jobs)"
    by (simp add: occurrences_def comp_def)
  have "count_list (skill_tokens j) k \<le> (if skills j \<noteq> None then 1 else 0)"
    using Cons.prems count_list_distinct [of "skill_tokens j" k]
    by (auto simp: skill_tokens_no_skills)
  moreover have "count_list (map fst (occurrences jobs)) k \<le>
      length (filter (\<lambda>j. skills j \<noteq> None) jobs)"
    using Cons by simp
  ultimately show ?case
    unfolding split by (cases "skills j = None") (simp_all del: not_None_eq)
qed

lemma py_round1_zero [simp]: "py_round1 0 = 0"
  by (simp add: py_round1_def py_round_def)

lemma py_round1_hundred [simp]: "py_round1 100 = 100"
  by (simp add: py_round1_def py_round_def)

lemma py_round1_nonneg: "0 \<le> x \<Longrightarrow> 0 \<le> py_round1 x"
  using py_round1_mono [of 0 x] by simp

lemma py_round1_le_100: "x \<le> 100 \<Longrightarrow> py_round1 x \<le> 100"
  using py_round1_mono [of x 100] by simp

lemma share_le_100:
  fixes c n :: nat
  assumes "c \<le> n"
  shows "(of_nat c :: rat) / of_nat n * 100 \<le> 100"
proof (cases "n = 0")
  case True
  then show ?thesis by simp
next
  case False
  with assms have "(of_nat c :: rat) / of_nat n \<le> 1" by simp
  then have "(of_nat c :: rat) / of_nat n * 100 \<le> 1 * 100"
    by (rule mult_right_mono) simp
  then show ?thesis by simp
qed

subsection \<open>Groups and their aggregates\<close>

lemma group_by_nonempty: "(k, g) \<in> set (group_by key rows) \<Longrightarrow> g \<noteq> []"
  by (auto simp: group_by_def filter_empty_conv)


lemma sql_avg_Some: "xs \<noteq> [] \<Longrightarrow> sql_avg xs = Some (sum_list xs / of_nat (length xs))"
  by (cases xs) (simp_all add: sql_avg_def)

lemma round_or_zero_Some: "round_or_zero (Some a) = py_round a"
  by (simp add: round_or_zero_def truthy_num_def py_round_def)

lemma round_or_zero_mono:
  "a \<noteq> None \<Longrightarrow> a \<le> b \<Longrightarrow> round_or_zero a \<le> round_or_zero b"
  by (cases a; cases b) (simp_all add: round_or_zero_Some py_round_mono)








subsection \<open>Remote work trends\<close>





subsection \<open>The query for records without a skill\<close>



subsection \<open>Patterns without wildcards\<close>

text \<open>
  For a string without \<^verbatim>\<open>%\<close> and \<^verbatim>\<open>_\<close> the pattern \<^verbatim>\<open>%x%\<close> matches exactly
  the strings that contain \<open>x\<close>; folding the letters first makes this containment
  case-insensitive in the ASCII range.
\<close>

lemma like_match_any: "like_match [CHR ''%''] s"
  by (induction s) simp_all

lemma like_match_prefix:
  assumes "CHR ''%'' \<notin> set p" and "CHR ''_'' \<notin> set p"
  shows "like_match (p @ [CHR ''%'']) s \<longleftrightarrow> (\<exists>b. s = p @ b)"
  using assms
proof (induction p arbitrary: s)
  case Nil
  then show ?case by (simp add: like_match_any)
next
  case (Cons c p)
  then show ?case by (cases s) auto
qed

lemma like_match_skip:
  "like_match (CHR ''%'' # q) s \<longleftrightarrow> (\<exists>a b. s = a @ b \<and> like_match q b)"
proof (induction s)
  case Nil
  then show ?case by (cases q) auto
next
  case (Cons c s)
  have "(\<exists>a b. c # s = a @ b \<and> like_match q b) \<longleftrightarrow>
        like_match q (c # s) \<or> (\<exists>a b. s = a @ b \<and> like_match q b)"
    by (auto simp: Cons_eq_append_conv)
  with Cons show ?case by simp
qed

lemma like_match_contains:
  assumes "CHR ''%'' \<notin> set p" and "CHR ''_'' \<notin> set p"
  shows "like_match (contains_pattern p) s \<longleftrightarrow> (\<exists>a b. s = a @ p @ b)"
  unfolding contains_pattern_def like_match_skip like_match_prefix [OF assms]
  by blast

section \<open>Salary insights\<close>



text \<open>
  C9. An empty string as location filter, as skill filter, or as both gives the same
  result as leaving that filter out.
\<close>

theorem salary_insights_empty_filter:
  "get_salary_insights db (Some '''') skill = get_salary_insights db None skill \<and>
   get_salary_insights db loc (Some '''') = get_salary_insights db loc None \<and>
   get_salary_insights db (Some '''') (Some '''') = get_salary_insights db None None"
  by (simp add: get_salary_insights_def salary_query_def truthy_def)

section \<open>Market summary\<close>

text \<open>
  C10. On the empty store \<^verbatim>\<open>generate_market_summary\<close> returns a result and not an
  error: no jobs, average salary 0, the salary range \<^verbatim>\<open>$0 - $0\<close>, no top skills, the
  highest paying location \<^verbatim>\<open>N/A\<close> and remote percentage 0.
\<close>

theorem market_summary_empty_store:
  "generate_market_summary [] =
     Inr \<lparr>ms_total_jobs = 0, ms_avg_salary = 0, ms_salary_range = ''$0 - $0'',
          ms_top_skills = [], ms_highest_paying_location = ''N/A'',
          ms_remote_percentage = 0\<rparr>"
  by code_simp

section \<open>Top skills\<close>

text \<open>
  C6. \<^verbatim>\<open>get_top_skills\<close> returns rows, and in each row the job count is the number of
  occurrences of the skill among the records with both salary bounds, the salary sample
  of the skill has one midpoint per occurrence, and the average salary is the rounded
  mean of that sample. On the three records of the scenario, \<^verbatim>\<open>get_top_skills(10)\<close>
  lists Python with count 2 and average 95000, SQL with count 2 and average 75000, and
  Java with count 1 and average 65000.
\<close>

theorem top_skills_per_occurrence:
  "(\<exists>rows. get_top_skills db limit = Inr rows \<and>
      (\<forall>e \<in> set rows.
         ts_job_count e = count_list (map fst (occurrences (filter has_salary db))) (ts_skill e) \<and>
         length (salary_sample (filter has_salary db) (ts_skill e)) = ts_job_count e \<and>
         0 < ts_job_count e \<and>
         ts_avg_salary e =
           py_round (sum_list (salary_sample (filter has_salary db) (ts_skill e)) /
                     of_nat (length (salary_sample (filter has_salary db) (ts_skill e)))))) \<and>
   get_top_skills skills_db 10 =
     Inr [\<lparr>ts_skill = ''Python'', ts_job_count = 2, ts_avg_salary = 95000,
            ts_percentage = 667 / 10\<rparr>,
          \<lparr>ts_skill = ''SQL'', ts_job_count = 2, ts_avg_salary = 75000,
            ts_percentage = 667 / 10\<rparr>,
          \<lparr>ts_skill = ''Java'', ts_job_count = 1, ts_avg_salary = 65000,
            ts_percentage = 333 / 10\<rparr>]"
proof
  from top_skills_entries [of db limit]
  obtain rows where rows: "get_top_skills db limit = Inr rows"
    and ent: "\<forall>e \<in> set rows.
        ts_job_count e = count_list (map fst (occurrences (filter has_salary db))) (ts_skill e) \<and>
        0 < ts_job_count e \<and>
        length (salary_sample (filter has_salary db) (ts_skill e)) = ts_job_count e \<and>
        ts_avg_salary e =
          py_round (sum_list (salary_sample (filter has_salary db) (ts_skill e)) /
                    of_nat (ts_job_count e)) \<and>
        ts_percentage e =
          py_round1 (of_nat (ts_job_count e) /
                     of_nat (length (filter (\<lambda>j. has_salary j \<and> skills j \<noteq> None) db)) * 100)"
    by blast
  have "ts_job_count e = count_list (map fst (occurrences (filter has_salary db))) (ts_skill e) \<and>
         length (salary_sample (filter has_salary db) (ts_skill e)) = ts_job_count e \<and>
         0 < ts_job_count e \<and>
         ts_avg_salary e =
           py_round (sum_list (salary_sample (filter has_salary db) (ts_skill e)) /
                     of_nat (length (salary_sample (filter has_salary db) (ts_skill e))))"
    if "e \<in> set rows" for e
  proof -
    from ent that
    have a: "ts_job_count e =
               count_list (map fst (occurrences (filter has_salary db))) (ts_skill e)"
      and b: "0 < ts_job_count e"
      and c: "length (salary_sample (filter has_salary db) (ts_skill e)) = ts_job_count e"
      and d: "ts_avg_salary e =
                py_round (sum_list (salary_sample (filter has_salary db) (ts_skill e)) /
                          of_nat (ts_job_count e))"
      by blast+
    show ?thesis unfolding c using a b d by blast
  qed
  with rows show "\<exists>rows. get_top_skills db limit = Inr rows \<and>
      (\<forall>e \<in> set rows.
         ts_job_count e = count_list (map fst (occurrences (filter has_salary db))) (ts_skill e) \<and>
         length (salary_sample (filter has_salary db) (ts_skill e)) = ts_job_count e \<and>
         0 < ts_job_count e \<and>
         ts_avg_salary e =
           py_round (sum_list (salary_sample (filter has_salary db) (ts_skill e)) /
                     of_nat (length (salary_sample (filter has_salary db) (ts_skill e)))))"
    by blast
next
  show "get_top_skills skills_db 10 =
     Inr [\<lparr>ts_skill = ''Python'', ts_job_count = 2, ts_avg_salary = 95000,
            ts_percentage = 667 / 10\<rparr>,
          \<lparr>ts_skill = ''SQL'', ts_job_count = 2, ts_avg_salary = 75000,
            ts_percentage = 667 / 10\<rparr>,
          \<lparr>ts_skill = ''Java'', ts_job_count = 1, ts_avg_salary = 65000,
            ts_percentage = 333 / 10\<rparr>]"
    by code_simp
qed

text \<open>
  In the scenario the occurrences are Python, SQL, Python, SQL, Java with the midpoints
  85000, 85000, 105000, 65000, 65000; the rows of the result agree with the counts and
  samples read off that list.
\<close>

theorem top_skills_per_occurrence_witness:
  "occurrences (filter has_salary skills_db) =
     [(''Python'', 85000), (''SQL'', 85000), (''Python'', 105000), (''SQL'', 65000),
      (''Java'', 65000)] \<and>
   salary_sample (filter has_salary skills_db) ''SQL'' = [85000, 65000] \<and>
   (case get_top_skills skills_db 10 of
      Inl e \<Rightarrow> False
    | Inr rows \<Rightarrow>
        map ts_skill rows = [''Python'', ''SQL'', ''Java''] \<and>
        map ts_job_count rows =
          map (count_list (map fst (occurrences (filter has_salary skills_db))))
            [''Python'', ''SQL'', ''Java''] \<and>
        map ts_avg_salary rows = [95000, 75000, 65000])"
proof -
  have occ: "occurrences (filter has_salary skills_db) =
     [(''Python'', 85000), (''SQL'', 85000), (''Python'', 105000), (''SQL'', 65000),
      (''Java'', 65000)]"
    by code_simp
  have sample: "salary_sample (filter has_salary skills_db) ''SQL'' = [85000, 65000]"
    by (simp add: salary_sample_def occ)
  show ?thesis
    using top_skills_per_occurrence [of skills_db 10] occ sample
    by auto
qed




text \<open>
  C2, as the code has it. For a non-negative limit \<open>n\<close>, \<^verbatim>\<open>get_top_skills(n)\<close> returns at
  most \<open>n\<close> rows and every percentage is at least 0. A percentage is at most 100 when
  no record names the same skill twice after trimming.
\<close>

theorem top_skills_bounds:
  "0 \<le> n \<Longrightarrow>
   \<exists>rows. get_top_skills db n = Inr rows \<and> int (length rows) \<le> n \<and>
     (\<forall>e \<in> set rows. 0 \<le> ts_percentage e) \<and>
     ((\<forall>j \<in> set db. distinct (skill_tokens j)) \<longrightarrow> (\<forall>e \<in> set rows. ts_percentage e \<le> 100))"
proof -
  assume n: "0 \<le> n"
  let ?m = "length (filter (\<lambda>j. has_salary j \<and> skills j \<noteq> None) db)"
  let ?xs = "map fst (occurrences (filter has_salary db))"
  from top_skills_entries [of db n]
  obtain rows where rows: "get_top_skills db n = Inr rows"
    and len: "length rows \<le> nat n"
    and cnt: "\<forall>e \<in> set rows. ts_job_count e = count_list ?xs (ts_skill e)"
    and pct: "\<forall>e \<in> set rows.
                ts_percentage e = py_round1 (of_nat (ts_job_count e) / of_nat ?m * 100)"
    by blast
  from len n have bound: "int (length rows) \<le> n" by linarith
  have lower: "\<forall>e \<in> set rows. 0 \<le> ts_percentage e"
  proof
    fix e assume "e \<in> set rows"
    with pct have "ts_percentage e = py_round1 (of_nat (ts_job_count e) / of_nat ?m * 100)"
      by blast
    then show "0 \<le> ts_percentage e"
      by (simp add: py_round1_nonneg)
  qed
  have upper: "\<forall>e \<in> set rows. ts_percentage e \<le> 100"
    if dist: "\<forall>j \<in> set db. distinct (skill_tokens j)"
  proof
    fix e assume e: "e \<in> set rows"
    from dist have "\<forall>j \<in> set (filter has_salary db). distinct (skill_tokens j)" by simp
    then have "count_list ?xs (ts_skill e) \<le>
        length (filter (\<lambda>j. skills j \<noteq> None) (filter has_salary db))"
      by (rule count_occurrences_le)
    then have "ts_job_count e \<le> ?m"
      using cnt e by (simp del: not_None_eq)
    then have "(of_nat (ts_job_count e) :: rat) / of_nat ?m * 100 \<le> 100"
      by (rule share_le_100)
    then have "py_round1 (of_nat (ts_job_count e) / of_nat ?m * 100) \<le> 100"
      by (rule py_round1_le_100)
    with pct e show "ts_percentage e \<le> 100" by simp
  qed
  show ?thesis
    using rows bound lower upper by blast
qed

text \<open>
  With the limit 10 on the scenario store, where no record repeats a skill, the three
  percentages are 66.7, 66.7 and 33.3.
\<close>

theorem top_skills_bounds_witness:
  "(0::int) \<le> 10 \<and>
   map (\<lambda>j. distinct (skill_tokens j)) skills_db = [True, True, True] \<and>
   (case get_top_skills skills_db 10 of
      Inl e \<Rightarrow> False
    | Inr rows \<Rightarrow>
        int (length rows) \<le> 10 \<and> map ts_percentage rows = [667 / 10, 667 / 10, 333 / 10] \<and>
        list_all (\<lambda>e. 0 \<le> ts_percentage e \<and> ts_percentage e \<le> 100) rows)"
proof -
  have dist: "map (\<lambda>j. distinct (skill_tokens j)) skills_db = [True, True, True]"
    by code_simp
  then have all: "\<forall>j \<in> set skills_db. distinct (skill_tokens j)"
    by (simp add: skills_db_def)
  have rows: "get_top_skills skills_db 10 =
     Inr [\<lparr>ts_skill = ''Python'', ts_job_count = 2, ts_avg_salary = 95000,
            ts_percentage = 667 / 10\<rparr>,
          \<lparr>ts_skill = ''SQL'', ts_job_count = 2, ts_avg_salary = 75000,
            ts_percentage = 667 / 10\<rparr>,
          \<lparr>ts_skill = ''Java'', ts_job_count = 1, ts_avg_salary = 65000,
            ts_percentage = 333 / 10\<rparr>]"
    by code_simp
  have "(0::int) \<le> 10" by simp
  from top_skills_bounds [OF this, of skills_db] all rows dist
  show ?thesis by auto
qed

text \<open>
  C2 as stated fails on \<open>repeated_skill_db\<close>: its one record names Python twice, so the
  count is 2 out of 1 record and the percentage is 200.
\<close>

theorem top_skills_bounds_counterexample:
  "get_top_skills repeated_skill_db 10 =
     Inr [\<lparr>ts_skill = ''Python'', ts_job_count = 2, ts_avg_salary = 85000,
            ts_percentage = 200\<rparr>] \<and>
   \<not> ts_percentage \<lparr>ts_skill = ''Python'', ts_job_count = 2, ts_avg_salary = 85000,
                     ts_percentage = 200\<rparr> \<le> 100"
proof -
  have "get_top_skills repeated_skill_db 10 =
     Inr [\<lparr>ts_skill = ''Python'', ts_job_count = 2, ts_avg_salary = 85000,
            ts_percentage = 200\<rparr>]"
    by code_simp
  then show ?thesis by simp
qed

section \<open>Salary by location\<close>

text \<open>
  C8. The rows of \<^verbatim>\<open>get_salary_by_location\<close> are in non-increasing order of their
  average salary: every row's average is at least the average of every later row, the
  next one in particular.
\<close>

theorem salary_by_location_descending:
  "sorted_wrt (\<lambda>a b. b \<le> a) (map ls_avg_salary (get_salary_by_location db))"
proof -
  let ?groups = "group_by location (filter has_salary db)"
  let ?rows = "map (\<lambda>(loc, g). (loc, length g, sql_avg (map midpoint g))) ?groups"
  let ?key = "\<lambda>(loc :: string, cnt :: nat, avg_sal :: rat option). avg_sal"
  let ?ordered = "sorted_desc ?key ?rows"
  have some: "?key r \<noteq> None" if "r \<in> set ?ordered" for r
  proof -
    from that have "r \<in> set ?rows" by (simp only: set_sorted_desc)
    then obtain loc g where g: "(loc, g) \<in> set ?groups"
      and r: "r = (loc, length g, sql_avg (map midpoint g))" by auto
    from g have "g \<noteq> []" by (rule group_by_nonempty)
    then show ?thesis by (simp add: r sql_avg_Some)
  qed
  have "sorted_wrt (\<lambda>a b. ?key b \<le> ?key a) ?ordered"
    by (rule sorted_sorted_desc)
  then have "sorted_wrt (\<lambda>a b. round_or_zero (?key b) \<le> round_or_zero (?key a)) ?ordered"
  proof (rule sorted_wrt_mono_rel [rotated])
    fix a b
    assume "a \<in> set ?ordered" and "b \<in> set ?ordered" and "?key b \<le> ?key a"
    then show "round_or_zero (?key b) \<le> round_or_zero (?key a)"
      using some [of b] by (intro round_or_zero_mono)
  qed
  then have "sorted_wrt (\<lambda>a b. b \<le> a) (map (\<lambda>r. round_or_zero (?key r)) ?ordered)"
    by (simp add: sorted_wrt_map)
  moreover have "map ls_avg_salary (get_salary_by_location db) =
      map (\<lambda>r. round_or_zero (?key r)) ?ordered"
    by (simp add: get_salary_by_location_def Let_def case_prod_beta comp_def)
  ultimately show ?thesis by simp
qed

section \<open>Remote work trends\<close>




section \<open>Company insights\<close>

text \<open>
  C3 on \<open>zero_salary_db\<close>. The group of Acme has the smallest midpoint 0 and the
  largest midpoint 55000, neither of them NULL, and the formatted range of these two
  numbers is \<^verbatim>\<open>$0 - $55,000\<close>; \<^verbatim>\<open>get_company_insights\<close> returns \<^verbatim>\<open>N/A\<close>, because
  its test \<^verbatim>\<open>if min_sal and max_sal\<close> is false for the number 0.
\<close>

theorem company_insights_zero_midpoint:
  "get_company_insights zero_salary_db 15 =
     [\<lparr>ci_company = ''Acme'', ci_job_count = 2, ci_avg_salary = 27500,
       ci_salary_range = ''N/A''\<rparr>] \<and>
   sql_min (map midpoint (filter has_salary zero_salary_db)) = Some 0 \<and>
   sql_max (map midpoint (filter has_salary zero_salary_db)) = Some 55000 \<and>
   ''$'' @ fmt_int (py_round 0) @ '' - $'' @ fmt_int (py_round 55000) = ''$0 - $55,000''"
proof -
  have "get_company_insights zero_salary_db 15 =
     [\<lparr>ci_company = ''Acme'', ci_job_count = 2, ci_avg_salary = 27500,
       ci_salary_range = ''N/A''\<rparr>]"
    by code_simp
  moreover have "sql_min (map midpoint (filter has_salary zero_salary_db)) = Some 0"
    by code_simp
  moreover have "sql_max (map midpoint (filter has_salary zero_salary_db)) = Some 55000"
    by code_simp
  moreover have "''$'' @ fmt_int (py_round 0) @ '' - $'' @ fmt_int (py_round 55000) =
      ''$0 - $55,000''"
    by (simp add: fmt_int_def digit_char_def py_round_def)
  ultimately show ?thesis by blast
qed

section \<open>Skill salary impact\<close>




end
